theory Spec2Isabelle
  imports Complex_Main "HOL-Library.Multiset"
begin

section \<open>Values, rows and the platform's answers\<close>

text \<open>
  The scripts read JSON rows that the platform's query command returns. A field of a
  row is \<open>None\<close>, a number or a string. Python's \<open>int\<close> and \<open>float\<close> are both
  modelled as exact rationals: \<open>+\<close>, \<open>-\<close>, \<open>*\<close>, \<open>/\<close> and the comparisons are the
  exact ones, so the rounding error of IEEE doubles is outside this model.
\<close>

datatype pyval = PNone | PNum rat | PStr string

text \<open>A row is a Python dict with string keys, kept as an association list.\<close>

type_synonym row = "(string \<times> pyval) list"

text \<open>\<open>row.get(k)\<close>: \<open>None\<close> when the key is absent.\<close>

definition get :: "row \<Rightarrow> string \<Rightarrow> pyval" where
  "get r k = (case map_of r k of None \<Rightarrow> PNone | Some v \<Rightarrow> v)"

text \<open>\<open>row.get(k, d)\<close>: the default only when the key is absent.\<close>

definition get_default :: "row \<Rightarrow> string \<Rightarrow> pyval \<Rightarrow> pyval" where
  "get_default r k d = (case map_of r k of None \<Rightarrow> d | Some v \<Rightarrow> v)"

text \<open>The exceptions that the modelled statements can raise.\<close>

datatype py_exn =
    UpstreamFailure
  | IndexError
  | AttributeError
  | TypeError
  | KeyError
  | ValueError
  | ZeroDivisionError

text \<open>
  \<open>Contents\<close> of an entry: a text (what an error entry carries) or a dict, of which
  only the key \<open>results\<close> is read (\<open>None\<close>: the key is absent).
\<close>

datatype contents = CText string | CDict "row list option"

text \<open>
  One entry of the list that \<open>demisto.executeCommand\<close> returns. Both keys are read with
  \<open>.get\<close>, so each may be absent.
\<close>

record entry =
  Type :: "int option"
  Contents :: "contents option"

text \<open>\<open>entryTypes['error']\<close> of CommonServerPython, which is not part of the repository.\<close>

definition entryTypes_error :: int where
  "entryTypes_error = 4"

text \<open>\<open>demisto.executeCommand\<close> raises or returns a list of entries.\<close>

datatype response = Raises | Returns "entry list"

text \<open>
  How a script ends when it does not return its value: \<open>return_error\<close> posts the message
  and leaves the script (\<open>sys.exit\<close>, which \<open>except Exception\<close> does not catch). The
  constructors are the messages of the source, with the interpolated value as argument.
\<close>

datatype error =
    Failed_to_query "contents option"
  | Error_checking py_exn
  | Dataset_is_stale pyval
  | Failed_to_get_trends "contents option"
  | Error_analyzing py_exn
  | Uncaught py_exn

section \<open>GetDataSourceHealthTrends\<close>

text \<open>
  Python's \<open>round(x, n)\<close> on a float: the nearest multiple of \<open>10 ^ -n\<close>, a tie going to
  the even one.
\<close>

definition round_half_even :: "rat \<Rightarrow> int" where
  "round_half_even x =
     (let f = \<lfloor>x\<rfloor>; d = x - of_int f
      in if d < 1 / 2 then f
         else if 1 / 2 < d then f + 1
         else if even f then f else f + 1)"

definition py_round :: "rat \<Rightarrow> nat \<Rightarrow> rat" where
  "py_round x n = of_int (round_half_even (x * 10 ^ n)) / 10 ^ n"

text \<open>One element of \<open>trending_worse\<close> or \<open>trending_better\<close> (key \<open>dataset\<close> first).\<close>

record trend_entry =
  trend_dataset :: pyval
  recent_avg_silent :: rat
  older_avg_silent :: rat
  change_percent :: rat

text \<open>
  \<open>sum(t['avg_hours_silent'] for t in ts)\<close>, started at 0: the subscript raises KeyError
  on a row without the key, the addition raises TypeError on a value that is no number,
  and the first row that fails decides.
\<close>

fun sum_avg :: "rat \<Rightarrow> row list \<Rightarrow> py_exn + rat" where
  "sum_avg acc [] = Inr acc"
| "sum_avg acc (t # ts) =
     (case map_of t ''avg_hours_silent'' of
        None \<Rightarrow> Inl KeyError
      | Some (PNum x) \<Rightarrow> sum_avg (acc + x) ts
      | Some _ \<Rightarrow> Inl TypeError)"

text \<open>The slices \<open>trends[-3:]\<close> and \<open>trends[:-3]\<close>.\<close>

definition last3 :: "'a list \<Rightarrow> 'a list" where
  "last3 xs = drop (length xs - 3) xs"

definition but_last3 :: "'a list \<Rightarrow> 'a list" where
  "but_last3 xs = take (length xs - 3) xs"

text \<open>
  Lines 58 and 59: the two averages. \<open>min(3, len(trends))\<close> is at least 2 where this is
  called and \<open>max(1, len(trends) - 3)\<close> is at least 1, so neither division fails.
\<close>

definition averages :: "row list \<Rightarrow> py_exn + (rat \<times> rat)" where
  "averages trends =
     (case sum_avg 0 (last3 trends) of
        Inl e \<Rightarrow> Inl e
      | Inr s_recent \<Rightarrow>
          (case sum_avg 0 (but_last3 trends) of
             Inl e \<Rightarrow> Inl e
           | Inr s_older \<Rightarrow>
               Inr (s_recent / of_nat (min 3 (length trends)),
                    s_older / of_nat (max 1 (length trends - 3)))))"

text \<open>
  The dict literal of lines 62 to 67 (and 69 to 74): the division by \<open>older_avg\<close> raises
  ZeroDivisionError when \<open>older_avg\<close> is 0.
\<close>

definition make_entry :: "pyval \<Rightarrow> rat \<Rightarrow> rat \<Rightarrow> py_exn + trend_entry" where
  "make_entry ds_name recent_avg older_avg =
     (if older_avg = 0 then Inl ZeroDivisionError
      else Inr \<lparr>trend_dataset = ds_name,
                recent_avg_silent = py_round recent_avg 2,
                older_avg_silent = py_round older_avg 2,
                change_percent = py_round (((recent_avg - older_avg) / older_avg) * 100) 1\<rparr>)"

text \<open>
  Lines 61 to 74: which list, if any, the dataset is appended to. The source has no name
  for the third case; it appends nothing.
\<close>

datatype verdict = Listed_worse trend_entry | Listed_better trend_entry | Not_listed

definition classify :: "pyval \<Rightarrow> rat \<Rightarrow> rat \<Rightarrow> py_exn + verdict" where
  "classify ds_name recent_avg older_avg =
     (if recent_avg > older_avg * (3 / 2) then
        (case make_entry ds_name recent_avg older_avg of
           Inl e \<Rightarrow> Inl e | Inr t \<Rightarrow> Inr (Listed_worse t))
      else if recent_avg < older_avg * (1 / 2) then
        (case make_entry ds_name recent_avg older_avg of
           Inl e \<Rightarrow> Inl e | Inr t \<Rightarrow> Inr (Listed_better t))
      else Inr Not_listed)"

text \<open>Lines 56 to 74: the body of the loop for one dataset.\<close>

definition analyze_dataset :: "pyval \<Rightarrow> row list \<Rightarrow> py_exn + verdict" where
  "analyze_dataset ds_name trends =
     (if length trends \<ge> 2 then
        (case averages trends of
           Inl e \<Rightarrow> Inl e
         | Inr (recent_avg, older_avg) \<Rightarrow> classify ds_name recent_avg older_avg)
      else Inr Not_listed)"

text \<open>
  Lines 47 to 52: \<open>dataset_trends\<close>, a dict from dataset name to its rows. Python keeps
  the keys in the order of their first insertion, which is the order \<open>items()\<close> walks.
\<close>

fun add_row :: "pyval \<Rightarrow> row \<Rightarrow> (pyval \<times> row list) list \<Rightarrow> (pyval \<times> row list) list" where
  "add_row k r [] = [(k, [r])]"
| "add_row k r ((k', rs) # g) =
     (if k = k' then (k', rs @ [r]) # g else (k', rs) # add_row k r g)"

fun group_rows :: "row list \<Rightarrow> (pyval \<times> row list) list \<Rightarrow> (pyval \<times> row list) list" where
  "group_rows [] g = g"
| "group_rows (r # rs) g = group_rows rs (add_row (get r ''dataset_name'') r g)"

text \<open>Lines 55 to 74: the loop over the datasets, appending to the two lists.\<close>

fun analyze_all ::
  "(pyval \<times> row list) list \<Rightarrow> trend_entry list \<Rightarrow> trend_entry list \<Rightarrow>
   py_exn + (trend_entry list \<times> trend_entry list)" where
  "analyze_all [] worse better = Inr (worse, better)"
| "analyze_all ((ds_name, trends) # g) worse better =
     (case analyze_dataset ds_name trends of
        Inl e \<Rightarrow> Inl e
      | Inr (Listed_worse t) \<Rightarrow> analyze_all g (worse @ [t]) better
      | Inr (Listed_better t) \<Rightarrow> analyze_all g worse (better @ [t])
      | Inr Not_listed \<Rightarrow> analyze_all g worse better)"

text \<open>The dict that \<open>get_health_trends\<close> returns.\<close>

record health_trends =
  raw_trends :: "row list"
  trending_worse :: "trend_entry list"
  trending_better :: "trend_entry list"
  dataset_count :: nat

text \<open>
  Lines 37 to 40 (and 32 to 35 of CheckDataSrouceHealthDataset): the rows of the first
  entry. With an empty list the message of \<open>return_error\<close> is never built, because
  \<open>results[0]\<close> raises first; a text as \<open>Contents\<close> has no \<open>.get\<close>.
\<close>

datatype 'a outcome = Error_entry "contents option" | Raised py_exn | Value 'a

definition query_results :: "response \<Rightarrow> (row list) outcome" where
  "query_results resp =
     (case resp of
        Raises \<Rightarrow> Raised UpstreamFailure
      | Returns [] \<Rightarrow> Raised IndexError
      | Returns (e # _) \<Rightarrow>
          (if Type e = Some entryTypes_error then Error_entry (Contents e)
           else (case Contents e of
                   None \<Rightarrow> Value []
                 | Some (CText _) \<Rightarrow> Raised AttributeError
                 | Some (CDict None) \<Rightarrow> Value []
                 | Some (CDict (Some rows)) \<Rightarrow> Value rows)))"

text \<open>Lines 42 to 81: from the rows to the returned dict.\<close>

definition analyze_trends :: "row list \<Rightarrow> py_exn + health_trends" where
  "analyze_trends trend_data =
     (let dataset_trends = group_rows trend_data []
      in case analyze_all dataset_trends [] [] of
           Inl e \<Rightarrow> Inl e
         | Inr (worse, better) \<Rightarrow>
             Inr \<lparr>raw_trends = trend_data,
                  trending_worse = worse,
                  trending_better = better,
                  dataset_count = length dataset_trends\<rparr>)"

text \<open>
  \<open>get_health_trends\<close> after the query has been answered: the \<open>try\<close> block with its
  \<open>except Exception\<close>.
\<close>

definition trends_of_response :: "response \<Rightarrow> error + health_trends" where
  "trends_of_response resp =
     (case query_results resp of
        Error_entry c \<Rightarrow> Inl (Failed_to_get_trends c)
      | Raised e \<Rightarrow> Inl (Error_analyzing e)
      | Value trend_data \<Rightarrow>
          (case analyze_trends trend_data of
             Inl e \<Rightarrow> Inl (Error_analyzing e)
           | Inr res \<Rightarrow> Inr res))"

text \<open>
  The queries that the scripts send. The source builds the query text with the
  argument interpolated; the datatype keeps the argument. \<open>Silent_query t\<close> is the text of
  lines 16 to 23 of CheckDataSrouceHealthDataset with \<open>threshold_hours = t\<close>,
  \<open>Freshness_query\<close> the text of lines 65 to 71, and \<open>Trends_query f h\<close> the text of lines
  17 to 30 of GetDataSourceHealthTrends with the dataset filter \<open>f\<close> and the timeframe \<open>h\<close>.
\<close>

datatype query = Silent_query rat | Freshness_query | Trends_query "string option" int

text \<open>
  The platform as the scripts see it: what it answers to each query, and the queries
  sent so far, in order.
\<close>

record world =
  upstream :: "query \<Rightarrow> response"
  calls :: "query list"

definition executeCommand :: "world \<Rightarrow> query \<Rightarrow> response \<times> world" where
  "executeCommand w q = (upstream w q, w\<lparr>calls := calls w @ [q]\<rparr>)"

text \<open>Line 15: an empty dataset name is falsy, so it adds no filter.\<close>

definition trends_query :: "string option \<Rightarrow> int \<Rightarrow> query" where
  "trends_query dataset_name timeframe_hours =
     Trends_query (case dataset_name of
                     None \<Rightarrow> None
                   | Some s \<Rightarrow> if s = [] then None else Some s) timeframe_hours"

definition get_health_trends ::
  "world \<Rightarrow> string option \<Rightarrow> int \<Rightarrow> (error + health_trends) \<times> world" where
  "get_health_trends w dataset_name timeframe_hours =
     (case executeCommand w (trends_query dataset_name timeframe_hours) of
        (resp, w') \<Rightarrow> (trends_of_response resp, w'))"

section \<open>CheckDataSrouceHealthDataset\<close>

text \<open>One element of the list that \<open>check_health_dataset\<close> returns.\<close>

record dataset_info =
  dataset :: pyval
  last_seen :: string
  last_seen_timestamp :: pyval
  hours_silent :: pyval
  severity :: pyval
  event_count :: pyval
  status :: pyval
  last_check :: string

text \<open>
  \<open>datetime.datetime.fromtimestamp(v).strftime('%Y-%m-%d %H:%M:%S UTC')\<close>. The library is
  not part of the repository: \<open>fmt\<close> is its result on a number, \<open>None\<close> where it raises
  (a year outside the range of \<open>datetime\<close>). A value that is no number raises TypeError.
\<close>

definition format_time :: "(rat \<Rightarrow> string option) \<Rightarrow> pyval \<Rightarrow> py_exn + string" where
  "format_time fmt v =
     (case v of
        PNum t \<Rightarrow> (case fmt t of None \<Rightarrow> Inl ValueError | Some s \<Rightarrow> Inr s)
      | _ \<Rightarrow> Inl TypeError)"

text \<open>Lines 40 to 53: the dict literal, its values computed in the order written.\<close>

definition make_info :: "(rat \<Rightarrow> string option) \<Rightarrow> row \<Rightarrow> py_exn + dataset_info" where
  "make_info fmt r =
     (case format_time fmt (get_default r ''last_seen_time'' (PNum 0)) of
        Inl e \<Rightarrow> Inl e
      | Inr seen \<Rightarrow>
          (case format_time fmt (get_default r ''check_time'' (PNum 0)) of
             Inl e \<Rightarrow> Inl e
           | Inr checked \<Rightarrow>
               Inr \<lparr>dataset = get r ''dataset_name'',
                    last_seen = seen,
                    last_seen_timestamp = get_default r ''last_seen_time'' (PNum 0),
                    hours_silent = get_default r ''hours_silent'' (PNum 0),
                    severity = get_default r ''severity'' (PStr ''Unknown''),
                    event_count = get_default r ''event_count_last_hour'' (PNum 0),
                    status = get_default r ''status'' (PStr ''Unknown''),
                    last_check = checked\<rparr>))"

text \<open>Lines 38 to 54: the loop that appends one dict for each row.\<close>

fun format_rows ::
  "(rat \<Rightarrow> string option) \<Rightarrow> row list \<Rightarrow> dataset_info list \<Rightarrow> py_exn + dataset_info list" where
  "format_rows fmt [] silent_datasets = Inr silent_datasets"
| "format_rows fmt (r # rs) silent_datasets =
     (case make_info fmt r of
        Inl e \<Rightarrow> Inl e
      | Inr dataset_info \<Rightarrow> format_rows fmt rs (silent_datasets @ [dataset_info]))"

text \<open>\<open>check_health_dataset\<close> after the query has been answered.\<close>

definition silent_of_response ::
  "(rat \<Rightarrow> string option) \<Rightarrow> response \<Rightarrow> error + dataset_info list" where
  "silent_of_response fmt resp =
     (case query_results resp of
        Error_entry c \<Rightarrow> Inl (Failed_to_query c)
      | Raised e \<Rightarrow> Inl (Error_checking e)
      | Value rows \<Rightarrow>
          (case format_rows fmt rows [] of
             Inl e \<Rightarrow> Inl (Error_checking e)
           | Inr silent_datasets \<Rightarrow> Inr silent_datasets))"

definition check_health_dataset ::
  "(rat \<Rightarrow> string option) \<Rightarrow> world \<Rightarrow> rat \<Rightarrow> (error + dataset_info list) \<times> world" where
  "check_health_dataset fmt w threshold_hours =
     (case executeCommand w (Silent_query threshold_hours) of
        (resp, w') \<Rightarrow> (silent_of_response fmt resp, w'))"

text \<open>The dict that \<open>verify_dataset_freshness\<close> returns.\<close>

record freshness =
  is_fresh :: bool
  minutes_old :: pyval
  last_update :: pyval

text \<open>Lines 87 and 90.\<close>

definition not_fresh :: freshness where
  "not_fresh = \<lparr>is_fresh = False, minutes_old = PNum 999, last_update = PNone\<rparr>"

text \<open>\<open>v < c\<close> for a number \<open>c\<close>: TypeError when \<open>v\<close> is \<open>None\<close> or a string.\<close>

definition less_than :: "pyval \<Rightarrow> rat \<Rightarrow> py_exn + bool" where
  "less_than v c = (case v of PNum m \<Rightarrow> Inr (m < c) | _ \<Rightarrow> Inl TypeError)"

text \<open>Lines 74 to 87: the \<open>try\<close> block of \<open>verify_dataset_freshness\<close>.\<close>

definition freshness_try :: "response \<Rightarrow> py_exn + freshness" where
  "freshness_try resp =
     (case resp of
        Raises \<Rightarrow> Inl UpstreamFailure
      | Returns [] \<Rightarrow> Inr not_fresh
      | Returns (e # _) \<Rightarrow>
          (if Type e \<noteq> Some entryTypes_error then
             (case Contents e of
                None \<Rightarrow> Inr not_fresh
              | Some (CText _) \<Rightarrow> Inl AttributeError
              | Some (CDict None) \<Rightarrow> Inr not_fresh
              | Some (CDict (Some [])) \<Rightarrow> Inr not_fresh
              | Some (CDict (Some (d # _))) \<Rightarrow>
                  (case less_than (get_default d ''minutes_old'' (PNum 999)) 35 of
                     Inl x \<Rightarrow> Inl x
                   | Inr fresh \<Rightarrow>
                       Inr \<lparr>is_fresh = fresh,
                            minutes_old = get_default d ''minutes_old'' (PNum 999),
                            last_update = get d ''latest_check''\<rparr>))
           else Inr not_fresh))"

text \<open>Lines 89 and 90: the bare \<open>except\<close> turns every exception into the same dict.\<close>

definition freshness_of_response :: "response \<Rightarrow> freshness" where
  "freshness_of_response resp =
     (case freshness_try resp of Inl _ \<Rightarrow> not_fresh | Inr v \<Rightarrow> v)"

definition verify_dataset_freshness :: "world \<Rightarrow> freshness \<times> world" where
  "verify_dataset_freshness w =
     (case executeCommand w Freshness_query of
        (resp, w') \<Rightarrow> (freshness_of_response resp, w'))"

text \<open>
  The argument \<open>threshold_hours\<close> of the script: absent (the default 1 is used), a text
  that \<open>float\<close> reads as a number, or one on which \<open>float\<close> raises.
\<close>

datatype arg = Arg_absent | Arg_number rat | Arg_unreadable

text \<open>
  The \<open>outputs\<close> of \<open>return_outputs\<close>. The readable table is rendering and is left out:
  with \<open>is_fresh\<close> true \<open>minutes_old\<close> is a number, so building it raises nothing.
\<close>

record health_outputs =
  SilentDataSources :: "dataset_info list"
  DatasetFreshness :: freshness

text \<open>Lines 93 to 126.\<close>

definition main ::
  "(rat \<Rightarrow> string option) \<Rightarrow> world \<Rightarrow> arg \<Rightarrow> (error + health_outputs) \<times> world" where
  "main fmt w a =
     (case a of
        Arg_unreadable \<Rightarrow> (Inl (Uncaught ValueError), w)
      | _ \<Rightarrow>
          (let threshold_hours = (case a of Arg_number t \<Rightarrow> t | _ \<Rightarrow> 1)
           in case verify_dataset_freshness w of
                (freshness, w1) \<Rightarrow>
                  if \<not> is_fresh freshness
                  then (Inl (Dataset_is_stale (minutes_old freshness)), w1)
                  else (case check_health_dataset fmt w1 threshold_hours of
                          (Inl e, w2) \<Rightarrow> (Inl e, w2)
                        | (Inr silent_datasets, w2) \<Rightarrow>
                            (Inr \<lparr>SilentDataSources = silent_datasets,
                                  DatasetFreshness = freshness\<rparr>, w2))))"

section \<open>The library and the platform at concrete inputs\<close>

text \<open>
  An instance of \<open>fmt\<close>: CPython's \<open>fromtimestamp\<close> and \<open>strftime\<close> with the local time
  zone UTC. The timestamp is rounded to microseconds, the date is the proleptic
  Gregorian one, and a year outside 1 to 9999 raises.
\<close>

definition civil_from_days :: "int \<Rightarrow> int \<times> int \<times> int" where
  "civil_from_days z0 =
     (let z = z0 + 719468;
          era = z div 146097;
          doe = z mod 146097;
          yoe = (doe - doe div 1460 + doe div 36524 - doe div 146096) div 365;
          doy = doe - (365 * yoe + yoe div 4 - yoe div 100);
          mp = (5 * doy + 2) div 153;
          d = doy - (153 * mp + 2) div 5 + 1;
          m = (if mp < 10 then mp + 3 else mp - 9);
          y = yoe + era * 400 + (if m \<le> 2 then 1 else 0)
      in (y, m, d))"

definition digit :: "int \<Rightarrow> char" where
  "digit n = ''0123456789'' ! nat (n mod 10)"

definition digits2 :: "int \<Rightarrow> string" where
  "digits2 n = [digit (n div 10), digit n]"

definition digits4 :: "int \<Rightarrow> string" where
  "digits4 n = [digit (n div 1000), digit (n div 100), digit (n div 10), digit n]"

definition utc_text :: "rat \<Rightarrow> string option" where
  "utc_text t =
     (let s = round_half_even (t * 1000000) div 1000000;
          secs = s mod 86400
      in case civil_from_days (s div 86400) of
           (y, m, d) \<Rightarrow>
             if y < 1 \<or> 9999 < y then None
             else Some (digits4 y @ ''-'' @ digits2 m @ ''-'' @ digits2 d @ '' '' @
                        digits2 (secs div 3600) @ '':'' @ digits2 (secs mod 3600 div 60) @
                        '':'' @ digits2 (secs mod 60) @ '' UTC''))"

text \<open>
  A successful answer of the platform carrying \<open>rows\<close>: one entry of type note
  (\<open>entryTypes['note']\<close> is 1) whose \<open>Contents\<close> has the rows under \<open>results\<close>.
\<close>

definition answer :: "row list \<Rightarrow> response" where
  "answer rows = Returns [\<lparr>Type = Some 1, Contents = Some (CDict (Some rows))\<rparr>]"

text \<open>A platform that answers every query with the same rows, nothing sent yet.\<close>

definition platform :: "row list \<Rightarrow> world" where
  "platform rows = \<lparr>upstream = (\<lambda>q. answer rows), calls = []\<rparr>"

text \<open>One row of the trends query: a dataset and its average in one hour bucket.\<close>

definition bucket :: "string \<Rightarrow> rat \<Rightarrow> row" where
  "bucket name avg = [(''dataset_name'', PStr name), (''avg_hours_silent'', PNum avg)]"

text \<open>
  Rows of the trends query for three datasets: \<open>proxy_logs\<close> with six buckets (averages
  1, 1, 1, 1, 8, 9), \<open>fw_logs\<close> with four (8, 1, 1, 1) and \<open>dns_logs\<close> with one, in the
  order of their hour buckets; and the dict that \<open>get_health_trends\<close> returns for them.
\<close>

definition example_trends :: "row list" where
  "example_trends =
     [bucket ''proxy_logs'' 1, bucket ''fw_logs'' 8, bucket ''dns_logs'' 4,
      bucket ''proxy_logs'' 1, bucket ''fw_logs'' 1,
      bucket ''proxy_logs'' 1, bucket ''fw_logs'' 1,
      bucket ''proxy_logs'' 1, bucket ''fw_logs'' 1,
      bucket ''proxy_logs'' 8, bucket ''proxy_logs'' 9]"

definition example_result :: health_trends where
  "example_result =
     \<lparr>raw_trends = example_trends,
      trending_worse = [\<lparr>trend_dataset = PStr ''proxy_logs'', recent_avg_silent = 6,
                         older_avg_silent = 1, change_percent = 500\<rparr>],
      trending_better = [\<lparr>trend_dataset = PStr ''fw_logs'', recent_avg_silent = 1,
                          older_avg_silent = 8, change_percent = - 875 / 10\<rparr>],
      dataset_count = 3\<rparr>"

section \<open>The query texts, as the platform evaluates them\<close>

text \<open>
  Modelled from the spec: the XQL engine of the platform, which evaluates the query
  texts, is missing from the repository. The stages of the text of lines 16 to 23 of
  CheckDataSrouceHealthDataset get the meaning that section 4.2 of the specification
  states: \<open>filter hours_silent >= t\<close> keeps the records whose \<open>hours_silent\<close> is a number
  not below \<open>t\<close>, \<open>sort hours_silent desc\<close> orders them by falling \<open>hours_silent\<close> and
  keeps the order of the input among equal ones, and \<open>fields\<close> keeps the listed keys.
  The argument \<open>window\<close> is the records of the dataset inside the timeframe of the query.
\<close>

definition hours :: "row \<Rightarrow> rat" where
  "hours r = (case get r ''hours_silent'' of PNum h \<Rightarrow> h | _ \<Rightarrow> 0)"

definition crosses :: "rat \<Rightarrow> row \<Rightarrow> bool" where
  "crosses t r = (case get r ''hours_silent'' of PNum h \<Rightarrow> t \<le> h | _ \<Rightarrow> False)"

definition xql_filter :: "rat \<Rightarrow> row list \<Rightarrow> row list" where
  "xql_filter t window = filter (crosses t) window"

definition xql_sort_desc :: "row list \<Rightarrow> row list" where
  "xql_sort_desc rows = sort_key (\<lambda>r. - hours r) rows"

definition restrict :: "string list \<Rightarrow> row \<Rightarrow> row" where
  "restrict ks r = filter (\<lambda>kv. fst kv \<in> set ks) r"

definition xql_fields :: "string list \<Rightarrow> row list \<Rightarrow> row list" where
  "xql_fields ks rows = map (restrict ks) rows"

definition silent_fields :: "string list" where
  "silent_fields = [''dataset_name'', ''last_seen_time'', ''hours_silent'', ''severity'',
                    ''event_count_last_hour'', ''status'', ''check_time'']"

definition silent_query_rows :: "rat \<Rightarrow> row list \<Rightarrow> row list" where
  "silent_query_rows t window = xql_fields silent_fields (xql_sort_desc (xql_filter t window))"


definition freshness_row :: "pyval \<Rightarrow> pyval \<Rightarrow> row" where
  "freshness_row latest minutes = [(''latest_check'', latest), (''minutes_old'', minutes)]"


text \<open>
  The report of one record, field by field: what an element of the returned list must
  hold to be the report of the record \<open>r\<close>.
\<close>

definition reports :: "(rat \<Rightarrow> string option) \<Rightarrow> row \<Rightarrow> dataset_info \<Rightarrow> bool" where
  "reports fmt r i =
     (dataset i = get r ''dataset_name''
      \<and> hours_silent i = get r ''hours_silent''
      \<and> last_seen_timestamp i = get_default r ''last_seen_time'' (PNum 0)
      \<and> severity i = get_default r ''severity'' (PStr ''Unknown'')
      \<and> event_count i = get_default r ''event_count_last_hour'' (PNum 0)
      \<and> status i = get_default r ''status'' (PStr ''Unknown'')
      \<and> format_time fmt (get_default r ''last_seen_time'' (PNum 0)) = Inr (last_seen i)
      \<and> format_time fmt (get_default r ''check_time'' (PNum 0)) = Inr (last_check i))"

text \<open>Both timestamps of the record (0 when absent) are ones the library can print.\<close>

definition printable :: "(rat \<Rightarrow> string option) \<Rightarrow> row \<Rightarrow> bool" where
  "printable fmt r =
     (case format_time fmt (get_default r ''last_seen_time'' (PNum 0)) of
        Inl _ \<Rightarrow> False
      | Inr _ \<Rightarrow>
          (case format_time fmt (get_default r ''check_time'' (PNum 0)) of
             Inl _ \<Rightarrow> False
           | Inr _ \<Rightarrow> True))"

text \<open>One record of the health dataset.\<close>

definition health_record :: "string \<Rightarrow> rat \<Rightarrow> rat \<Rightarrow> rat \<Rightarrow> row" where
  "health_record name seen checked silent =
     [(''dataset_name'', PStr name), (''last_seen_time'', PNum seen),
      (''check_time'', PNum checked), (''hours_silent'', PNum silent),
      (''status'', PStr ''Silent''), (''severity'', PStr ''High''),
      (''event_count_last_hour'', PNum 0)]"

section \<open>Division by the older average\<close>

text \<open>
  C4. The claim: the computation of \<open>change_percent\<close> never divides by zero, the case
  \<open>older_avg == 0\<close> being guarded. The code has no such guard. A dataset with two
  buckets, averages 1 and 2, has no older bucket, so \<open>older_avg\<close> is 0 / 1 = 0 and
  \<open>recent_avg\<close> is 3 / 2; the first test \<open>recent_avg > older_avg * 1.5\<close> holds and the
  dict literal divides by \<open>older_avg\<close>: ZeroDivisionError.
\<close>

theorem change_percent_divides_by_zero:
  "averages [bucket ''fw_logs'' 1, bucket ''fw_logs'' 2] = Inr (3 / 2, 0)
   \<and> classify (PStr ''fw_logs'') (3 / 2) 0 = Inl ZeroDivisionError
   \<and> analyze_dataset (PStr ''fw_logs'') [bucket ''fw_logs'' 1, bucket ''fw_logs'' 2]
       = Inl ZeroDivisionError"
  by (simp add: averages_def last3_def but_last3_def bucket_def classify_def make_entry_def
      analyze_dataset_def)

text \<open>
  C3. The claim: a dataset with fewer than 4 buckets is left out of both lists and is
  still counted in \<open>dataset_count\<close>. With the rows below, \<open>proxy_logs\<close> has one bucket and
  \<open>fw_logs\<close> has two; the division by \<open>older_avg = 0\<close> for \<open>fw_logs\<close> raises, the
  \<open>except\<close> clause calls \<open>return_error\<close>, and no \<open>dataset_count\<close> is returned at all.
\<close>

theorem short_history_aborts_analysis:
  "fst (get_health_trends
          (platform [bucket ''proxy_logs'' 4, bucket ''fw_logs'' 1, bucket ''fw_logs'' 2])
          None 24)
   = Inl (Error_analyzing ZeroDivisionError)"
  by (simp add: get_health_trends_def executeCommand_def platform_def answer_def
      trends_of_response_def query_results_def entryTypes_error_def analyze_trends_def
      analyze_dataset_def averages_def last3_def but_last3_def bucket_def classify_def
      make_entry_def get_def)

section \<open>Silent sources\<close>

lemma map_of_restrict: "map_of (restrict ks r) k = (if k \<in> set ks then map_of r k else None)"
  unfolding restrict_def by (induction r) auto

lemma get_restrict: "k \<in> set ks \<Longrightarrow> get (restrict ks r) k = get r k"
  by (simp add: get_def map_of_restrict)

lemma get_default_restrict:
  "k \<in> set ks \<Longrightarrow> get_default (restrict ks r) k d = get_default r k d"
  by (simp add: get_default_def map_of_restrict)

lemma reports_restrict: "reports fmt (restrict silent_fields r) i = reports fmt r i"
  by (simp add: reports_def get_restrict get_default_restrict silent_fields_def)

lemma printable_restrict: "printable fmt (restrict silent_fields r) = printable fmt r"
  by (simp add: printable_def get_default_restrict silent_fields_def cong: sum.case_cong)

lemma crosses_hours_silent:
  "crosses t r \<Longrightarrow> get_default r ''hours_silent'' d = get r ''hours_silent''"
  by (auto simp: crosses_def get_def get_default_def split: option.splits pyval.splits)

lemma hours_silent_restrict:
  "crosses t r \<Longrightarrow>
   get_default (restrict silent_fields r) ''hours_silent'' (PNum 0)
     = get (restrict silent_fields r) ''hours_silent''"
  using crosses_hours_silent[of t r "PNum 0"]
  by (simp add: get_restrict get_default_restrict silent_fields_def)

lemma make_info_reports:
  "printable fmt r \<Longrightarrow> get_default r ''hours_silent'' (PNum 0) = get r ''hours_silent'' \<Longrightarrow>
   \<exists>i. make_info fmt r = Inr i \<and> reports fmt r i"
  by (auto simp: printable_def make_info_def reports_def split: sum.splits)

lemma format_rows_reports:
  "list_all (\<lambda>r. printable fmt r
       \<and> get_default r ''hours_silent'' (PNum 0) = get r ''hours_silent'') rows \<Longrightarrow>
   \<exists>infos. format_rows fmt rows acc = Inr (acc @ infos) \<and> list_all2 (reports fmt) rows infos"
proof (induction rows arbitrary: acc)
  case Nil
  then show ?case by simp
next
  case (Cons r rows)
  from Cons.prems obtain i where i: "make_info fmt r = Inr i" "reports fmt r i"
    using make_info_reports by auto
  from Cons.prems have "list_all (\<lambda>r. printable fmt r
      \<and> get_default r ''hours_silent'' (PNum 0) = get r ''hours_silent'') rows"
    by simp
  from Cons.IH[OF this, of "acc @ [i]"] obtain infos where
    "format_rows fmt rows (acc @ [i]) = Inr ((acc @ [i]) @ infos)"
    "list_all2 (reports fmt) rows infos"
    by blast
  with i show ?case
    by (intro exI[of _ "i # infos"]) simp
qed

text \<open>
  C1, as amended. Let the platform answer the query of \<open>check_health_dataset\<close> with the
  evaluation of its text on the records \<open>window\<close>, and let the library be able to print
  both timestamps of every record whose \<open>hours_silent\<close> reaches the threshold. Then the
  function returns a list \<open>infos\<close> that reports, element by element, a list \<open>rs\<close> of
  records which holds exactly the records of the window that reach the threshold (as a
  multiset), is ordered by falling \<open>hours_silent\<close>, and keeps records with equal
  \<open>hours_silent\<close> in the order of the window. There is one report for each such record,
  and the empty list when there is none. The threshold need not be non-negative.
\<close>

theorem silent_sources_filtered_and_sorted:
  assumes up: "upstream w (Silent_query t) = answer (silent_query_rows t window)"
    and pr: "list_all (printable fmt) (filter (crosses t) window)"
  shows "\<exists>rs infos.
           fst (check_health_dataset fmt w t) = Inr infos
           \<and> list_all2 (reports fmt) rs infos
           \<and> mset rs = filter_mset (crosses t) (mset window)
           \<and> sorted_wrt (\<lambda>a b. hours b \<le> hours a) rs
           \<and> (\<forall>h. filter (\<lambda>r. hours r = h) rs
                    = filter (\<lambda>r. hours r = h \<and> crosses t r) window)
           \<and> length infos = length (filter (crosses t) window)
           \<and> (filter (crosses t) window = [] \<longrightarrow> infos = [])"
proof -
  define rs where "rs = sort_key (\<lambda>r. - hours r) (filter (crosses t) window)"
  have rows: "silent_query_rows t window = map (restrict silent_fields) rs"
    by (simp add: silent_query_rows_def xql_fields_def xql_sort_desc_def xql_filter_def rs_def)
  have all: "list_all (\<lambda>r. printable fmt r
                \<and> get_default r ''hours_silent'' (PNum 0) = get r ''hours_silent'')
              (map (restrict silent_fields) rs)"
    using pr
    by (auto simp: list_all_iff rs_def printable_restrict hours_silent_restrict)
  from format_rows_reports[OF all, of "[]"] obtain infos where
    fr: "format_rows fmt (map (restrict silent_fields) rs) [] = Inr infos"
    and la: "list_all2 (reports fmt) (map (restrict silent_fields) rs) infos"
    by auto
  have la': "list_all2 (reports fmt) rs infos"
    using la by (simp add: list_all2_map1 reports_restrict)
  have res: "fst (check_health_dataset fmt w t) = Inr infos"
    by (simp add: check_health_dataset_def executeCommand_def up silent_of_response_def
        query_results_def entryTypes_error_def rows[unfolded answer_def] answer_def fr)
  have ms: "mset rs = filter_mset (crosses t) (mset window)"
    by (simp add: rs_def)
  have so: "sorted_wrt (\<lambda>a b. hours b \<le> hours a) rs"
    using sorted_sort_key[of "\<lambda>r. - hours r" "filter (crosses t) window"]
    by (simp add: rs_def sorted_wrt_map)
  have st: "filter (\<lambda>r. hours r = h) rs
      = filter (\<lambda>r. hours r = h \<and> crosses t r) window" for h
    using sort_key_stable[of "\<lambda>r. - hours r" "- h" "filter (crosses t) window"]
    by (simp add: rs_def conj_commute)
  have len: "length infos = length (filter (crosses t) window)"
    using list_all2_lengthD[OF la'] by (simp add: rs_def)
  from res la' ms so st len show ?thesis by auto
qed

lemma utc_text_seen: "utc_text 1700000000 = Some ''2023-11-14 22:13:20 UTC''"
  by code_simp

lemma utc_text_checked: "utc_text 1700003600 = Some ''2023-11-14 23:13:20 UTC''"
  by code_simp

lemma utc_text_milliseconds: "utc_text 1700000000000 = None"
  by code_simp

text \<open>
  The theorem at three records, of which two reach the threshold 1. The timestamps
  are 2023-11-14 22:13:20 and one hour later.
\<close>

theorem silent_sources_witness:
  "upstream
     (platform (silent_query_rows 1
        [health_record ''fw_logs'' 1700000000 1700003600 (5 / 2),
         health_record ''dns_logs'' 1700000000 1700003600 (1 / 2),
         health_record ''proxy_logs'' 1700000000 1700003600 7]))
     (Silent_query 1)
   = answer (silent_query_rows 1
        [health_record ''fw_logs'' 1700000000 1700003600 (5 / 2),
         health_record ''dns_logs'' 1700000000 1700003600 (1 / 2),
         health_record ''proxy_logs'' 1700000000 1700003600 7])
   \<and> list_all (printable utc_text) (filter (crosses 1)
        [health_record ''fw_logs'' 1700000000 1700003600 (5 / 2),
         health_record ''dns_logs'' 1700000000 1700003600 (1 / 2),
         health_record ''proxy_logs'' 1700000000 1700003600 7])
   \<and> (\<exists>rs infos.
         fst (check_health_dataset utc_text
               (platform (silent_query_rows 1
                  [health_record ''fw_logs'' 1700000000 1700003600 (5 / 2),
                   health_record ''dns_logs'' 1700000000 1700003600 (1 / 2),
                   health_record ''proxy_logs'' 1700000000 1700003600 7])) 1) = Inr infos
         \<and> list_all2 (reports utc_text) rs infos
         \<and> sorted_wrt (\<lambda>a b. hours b \<le> hours a) rs
         \<and> length infos = 2)"
proof -
  let ?window = "[health_record ''fw_logs'' 1700000000 1700003600 (5 / 2),
         health_record ''dns_logs'' 1700000000 1700003600 (1 / 2),
         health_record ''proxy_logs'' 1700000000 1700003600 7]"
  have up: "upstream (platform (silent_query_rows 1 ?window)) (Silent_query 1)
      = answer (silent_query_rows 1 ?window)"
    by (simp add: platform_def)
  have cr: "filter (crosses 1) ?window
      = [health_record ''fw_logs'' 1700000000 1700003600 (5 / 2),
         health_record ''proxy_logs'' 1700000000 1700003600 7]"
    by (simp add: crosses_def get_def health_record_def)
  have pr: "list_all (printable utc_text) (filter (crosses 1) ?window)"
    unfolding cr
    by (simp add: printable_def format_time_def get_default_def health_record_def
        utc_text_seen utc_text_checked)
  from silent_sources_filtered_and_sorted[OF up pr] cr up pr show ?thesis
    by auto
qed

text \<open>
  C1, as stated, fails: a record that reaches the threshold and whose timestamps are
  milliseconds (here 1700000000000, the year 55841) makes \<open>fromtimestamp\<close> raise; the
  \<open>except\<close> clause ends the script with \<open>return_error\<close> and no report is returned.
\<close>

theorem silent_sources_counterexample:
  "crosses 1 (health_record ''fw_logs'' 1700000000000 1700003600000 (5 / 2))
   \<and> fst (check_health_dataset utc_text
            (platform (silent_query_rows 1
               [health_record ''fw_logs'' 1700000000000 1700003600000 (5 / 2)])) 1)
       = Inl (Error_checking ValueError)"
  by (simp add: crosses_def get_def health_record_def check_health_dataset_def
      executeCommand_def platform_def answer_def silent_query_rows_def xql_fields_def
      xql_sort_desc_def xql_filter_def restrict_def silent_fields_def silent_of_response_def
      query_results_def entryTypes_error_def make_info_def format_time_def get_default_def
      utc_text_milliseconds)

section \<open>Trend classification\<close>





section \<open>Freshness\<close>



text \<open>
  C5. \<open>verify_dataset_freshness\<close> always returns a dict. It returns the conservative one
  (\<open>is_fresh\<close> false, \<open>minutes_old\<close> 999, \<open>last_update\<close> \<open>None\<close>) when the query command
  raises, when it returns no entry, when the first entry is an error entry, when the
  result holds no row, and whenever any statement of the \<open>try\<close> block raises.
\<close>

theorem freshness_degrades_to_not_fresh:
  "freshness_of_response Raises = not_fresh
   \<and> freshness_of_response (Returns []) = not_fresh
   \<and> (Type e = Some entryTypes_error \<longrightarrow> freshness_of_response (Returns (e # es)) = not_fresh)
   \<and> (Contents e = Some (CDict (Some [])) \<longrightarrow> freshness_of_response (Returns (e # es)) = not_fresh)
   \<and> (freshness_try resp = Inl x \<longrightarrow> freshness_of_response resp = not_fresh)
   \<and> fst (verify_dataset_freshness w) = freshness_of_response (upstream w Freshness_query)
   \<and> not_fresh = \<lparr>is_fresh = False, minutes_old = PNum 999, last_update = PNone\<rparr>"
  by (simp add: freshness_of_response_def freshness_try_def verify_dataset_freshness_def
      executeCommand_def not_fresh_def)

text \<open>
  The theorem at an error entry, at an answer without rows, and at an answer whose only
  row holds \<open>None\<close> for \<open>minutes_old\<close> (the comparison with 35 raises TypeError).
\<close>

theorem freshness_degrades_witness:
  "Type \<lparr>Type = Some 4, Contents = Some (CText ''query failed'')\<rparr> = Some entryTypes_error
   \<and> freshness_of_response (Returns [\<lparr>Type = Some 4, Contents = Some (CText ''query failed'')\<rparr>])
       = not_fresh
   \<and> Contents \<lparr>Type = Some 1, Contents = Some (CDict (Some []))\<rparr> = Some (CDict (Some []))
   \<and> freshness_of_response (Returns [\<lparr>Type = Some 1, Contents = Some (CDict (Some []))\<rparr>])
       = not_fresh
   \<and> freshness_try (answer [freshness_row PNone PNone]) = Inl TypeError
   \<and> freshness_of_response (answer [freshness_row PNone PNone])
       = not_fresh"
proof -
  have a: "Type \<lparr>Type = Some 4, Contents = Some (CText ''query failed'')\<rparr> = Some entryTypes_error"
    by (simp add: entryTypes_error_def)
  have b: "Contents \<lparr>Type = Some 1, Contents = Some (CDict (Some []))\<rparr> = Some (CDict (Some []))"
    by simp
  have c: "freshness_try (answer [freshness_row PNone PNone]) = Inl TypeError"
    by (simp add: freshness_try_def answer_def entryTypes_error_def less_than_def get_default_def
        freshness_row_def)
  from a b c
    freshness_degrades_to_not_fresh[of "\<lparr>Type = Some 4, Contents = Some (CText ''query failed'')\<rparr>" "[]"]
    freshness_degrades_to_not_fresh[of "\<lparr>Type = Some 1, Contents = Some (CDict (Some []))\<rparr>" "[]"]
    freshness_degrades_to_not_fresh[of _ _ "answer [freshness_row PNone PNone]" TypeError]
  show ?thesis by blast
qed



section \<open>Stale data stops the health check\<close>

text \<open>
  C7. When the argument can be read and the freshness dict of the invocation has
  \<open>is_fresh\<close> false, \<open>main\<close> ends in the error that names \<open>minutes_old\<close>, and the only query
  it has sent is the freshness query: \<open>check_health_dataset\<close> is not run.
\<close>

theorem stale_data_stops_main:
  assumes "a \<noteq> Arg_unreadable"
    and "\<not> is_fresh (freshness_of_response (upstream w Freshness_query))"
  shows "fst (main fmt w a)
           = Inl (Dataset_is_stale
                    (minutes_old (freshness_of_response (upstream w Freshness_query))))
         \<and> calls (snd (main fmt w a)) = calls w @ [Freshness_query]"
  using assms
  by (cases a) (simp_all add: main_def verify_dataset_freshness_def executeCommand_def)

text \<open>On fresh data the second query is sent, so the freshness test is what keeps it back.\<close>

lemma fresh_data_runs_detection:
  assumes "a \<noteq> Arg_unreadable"
    and "is_fresh (freshness_of_response (upstream w Freshness_query))"
  shows "calls (snd (main fmt w a))
           = calls w @ [Freshness_query,
                        Silent_query (case a of Arg_number t \<Rightarrow> t | _ \<Rightarrow> 1)]"
  using assms
  by (cases a)
     (simp_all add: main_def verify_dataset_freshness_def executeCommand_def
       check_health_dataset_def split: sum.splits)

text \<open>The theorem at a platform whose data is 50 minutes old.\<close>

theorem stale_data_witness:
  "Arg_absent \<noteq> Arg_unreadable
   \<and> \<not> is_fresh (freshness_of_response
                    (upstream (platform [freshness_row (PNum 1700000000) (PNum 50)]) Freshness_query))
   \<and> fst (main utc_text (platform [freshness_row (PNum 1700000000) (PNum 50)]) Arg_absent)
       = Inl (Dataset_is_stale (PNum 50))
   \<and> calls (snd (main utc_text (platform [freshness_row (PNum 1700000000) (PNum 50)]) Arg_absent))
       = [Freshness_query]"
proof -
  let ?w = "platform [freshness_row (PNum 1700000000) (PNum 50)]"
  have up: "upstream ?w Freshness_query
      = answer [freshness_row (PNum 1700000000) (PNum 50)]"
    by (simp add: platform_def)
  have v: "freshness_of_response
        (answer [freshness_row (PNum 1700000000) (PNum 50)])
      = \<lparr>is_fresh = False, minutes_old = PNum 50, last_update = PNum 1700000000\<rparr>"
    by (simp add: answer_def freshness_of_response_def freshness_try_def
        entryTypes_error_def less_than_def get_default_def get_def freshness_row_def)
  have c: "calls ?w = []"
    by (simp add: platform_def)
  have a: "Arg_absent \<noteq> Arg_unreadable" by simp
  have s: "\<not> is_fresh (freshness_of_response (upstream ?w Freshness_query))"
    by (simp add: up v)
  from stale_data_stops_main[OF a s, of utc_text] a s show ?thesis
    by (simp add: up v c)
qed

section \<open>The trend analysis as a whole\<close>

lemma keys_add_row: "fst ` set (add_row k r g) = insert k (fst ` set g)"
  by (induction k r g rule: add_row.induct) (simp_all add: insert_commute)

lemma keys_group_rows:
  "fst ` set (group_rows rows g) = fst ` set g \<union> (\<lambda>r. get r ''dataset_name'') ` set rows"
  by (induction rows arbitrary: g) (simp_all add: keys_add_row)

lemma distinct_add_row: "distinct (map fst g) \<Longrightarrow> distinct (map fst (add_row k r g))"
  by (induction k r g rule: add_row.induct) (simp_all add: keys_add_row)

lemma distinct_group_rows: "distinct (map fst g) \<Longrightarrow> distinct (map fst (group_rows rows g))"
  by (induction rows arbitrary: g) (simp_all add: distinct_add_row)

lemma make_entry_dataset: "make_entry ds rec old = Inr t \<Longrightarrow> trend_dataset t = ds"
  by (auto simp: make_entry_def split: if_splits)

lemma classify_worse: "classify ds rec old = Inr (Listed_worse t) \<Longrightarrow> trend_dataset t = ds"
  by (auto simp: classify_def make_entry_dataset split: if_splits sum.splits)

lemma classify_better: "classify ds rec old = Inr (Listed_better t) \<Longrightarrow> trend_dataset t = ds"
  by (auto simp: classify_def make_entry_dataset split: if_splits sum.splits)

lemma analyze_dataset_worse:
  "analyze_dataset ds trends = Inr (Listed_worse t) \<Longrightarrow> trend_dataset t = ds"
  by (auto simp: analyze_dataset_def classify_worse split: if_splits sum.splits)

lemma analyze_dataset_better:
  "analyze_dataset ds trends = Inr (Listed_better t) \<Longrightarrow> trend_dataset t = ds"
  by (auto simp: analyze_dataset_def classify_better split: if_splits sum.splits)


lemma analyze_all_subset:
  "analyze_all g worse better = Inr (worse', better') \<Longrightarrow>
   trend_dataset ` set worse' \<subseteq> trend_dataset ` set worse \<union> fst ` set g
   \<and> trend_dataset ` set better' \<subseteq> trend_dataset ` set better \<union> fst ` set g"
proof (induction g worse better rule: analyze_all.induct)
  case (1 worse better)
  then show ?case by simp
next
  case (2 ds_name trends g worse better)
  show ?case
  proof (cases "analyze_dataset ds_name trends")
    case (Inl e)
    with "2.prems" show ?thesis by simp
  next
    case (Inr v)
    show ?thesis
    proof (cases v)
      case (Listed_worse t)
      with Inr "2.prems" have "analyze_all g (worse @ [t]) better = Inr (worse', better')"
        by simp
      from "2.IH"(1)[OF Inr Listed_worse this] analyze_dataset_worse[of ds_name trends t]
        Inr Listed_worse
      show ?thesis by auto
    next
      case (Listed_better t)
      with Inr "2.prems" have "analyze_all g worse (better @ [t]) = Inr (worse', better')"
        by simp
      from "2.IH"(2)[OF Inr Listed_better this] analyze_dataset_better[of ds_name trends t]
        Inr Listed_better
      show ?thesis by auto
    next
      case Not_listed
      with Inr "2.prems" have "analyze_all g worse better = Inr (worse', better')"
        by simp
      from "2.IH"(3)[OF Inr Not_listed this]
      show ?thesis by auto
    qed
  qed
qed

lemma analyze_all_distinct:
  "analyze_all g worse better = Inr (worse', better') \<Longrightarrow>
   distinct (map fst g) \<Longrightarrow>
   distinct (map trend_dataset (worse @ better)) \<Longrightarrow>
   trend_dataset ` set (worse @ better) \<inter> fst ` set g = {} \<Longrightarrow>
   distinct (map trend_dataset (worse' @ better'))"
proof (induction g worse better rule: analyze_all.induct)
  case (1 worse better)
  then show ?case by simp
next
  case (2 ds_name trends g worse better)
  from "2.prems"(2) have dg: "distinct (map fst g)" and nk: "ds_name \<notin> fst ` set g"
    by auto
  from "2.prems"(4) have nw: "ds_name \<notin> trend_dataset ` set (worse @ better)"
    and dj: "trend_dataset ` set (worse @ better) \<inter> fst ` set g = {}"
    by auto
  show ?case
  proof (cases "analyze_dataset ds_name trends")
    case (Inl e)
    with "2.prems" show ?thesis by simp
  next
    case (Inr v)
    show ?thesis
    proof (cases v)
      case (Listed_worse t)
      with Inr "2.prems" have a: "analyze_all g (worse @ [t]) better = Inr (worse', better')"
        by simp
      have t: "trend_dataset t = ds_name"
        using Inr Listed_worse analyze_dataset_worse by simp
      have d: "distinct (map trend_dataset ((worse @ [t]) @ better))"
        using "2.prems"(3) nw t by auto
      have j: "trend_dataset ` set ((worse @ [t]) @ better) \<inter> fst ` set g = {}"
        using dj nk t by auto
      from "2.IH"(1)[OF Inr Listed_worse a dg d j] show ?thesis .
    next
      case (Listed_better t)
      with Inr "2.prems" have a: "analyze_all g worse (better @ [t]) = Inr (worse', better')"
        by simp
      have t: "trend_dataset t = ds_name"
        using Inr Listed_better analyze_dataset_better by simp
      have d: "distinct (map trend_dataset (worse @ (better @ [t])))"
        using "2.prems"(3) nw t by auto
      have j: "trend_dataset ` set (worse @ (better @ [t])) \<inter> fst ` set g = {}"
        using dj nk t by auto
      from "2.IH"(2)[OF Inr Listed_better a dg d j] show ?thesis .
    next
      case Not_listed
      with Inr "2.prems" have a: "analyze_all g worse better = Inr (worse', better')"
        by simp
      from "2.IH"(3)[OF Inr Not_listed a dg "2.prems"(3) dj] show ?thesis .
    qed
  qed
qed


lemma analyze_trends_result:
  assumes "analyze_trends rows = Inr res"
  shows "raw_trends res = rows"
    and "dataset_count res = length (group_rows rows [])"
    and "trend_dataset ` set (trending_worse res) \<subseteq> (\<lambda>r. get r ''dataset_name'') ` set rows"
    and "trend_dataset ` set (trending_better res) \<subseteq> (\<lambda>r. get r ''dataset_name'') ` set rows"
    and "distinct (map trend_dataset (trending_worse res @ trending_better res))"
proof -
  from assms obtain worse better where
    a: "analyze_all (group_rows rows []) [] [] = Inr (worse, better)"
    and r: "res = \<lparr>raw_trends = rows, trending_worse = worse, trending_better = better,
                   dataset_count = length (group_rows rows [])\<rparr>"
    by (auto simp: analyze_trends_def Let_def split: sum.splits)
  have d: "distinct (map fst (group_rows rows []))"
    by (rule distinct_group_rows) simp
  have k: "fst ` set (group_rows rows []) = (\<lambda>r. get r ''dataset_name'') ` set rows"
    by (simp add: keys_group_rows)
  show "raw_trends res = rows" and "dataset_count res = length (group_rows rows [])"
    by (simp_all add: r)
  from analyze_all_subset[OF a] k
  show "trend_dataset ` set (trending_worse res) \<subseteq> (\<lambda>r. get r ''dataset_name'') ` set rows"
    and "trend_dataset ` set (trending_better res) \<subseteq> (\<lambda>r. get r ''dataset_name'') ` set rows"
    by (simp_all add: r)
  from analyze_all_distinct[OF a d]
  show "distinct (map trend_dataset (trending_worse res @ trending_better res))"
    by (simp add: r)
qed

lemma trends_of_response_Inr:
  "trends_of_response resp = Inr res \<Longrightarrow>
   \<exists>rows. query_results resp = Value rows \<and> analyze_trends rows = Inr res"
  by (auto simp: trends_of_response_def split: outcome.splits sum.splits)




lemma example_trends_analysis: "analyze_trends example_trends = Inr example_result"
  by code_simp

lemma example_trends_response: "trends_of_response (answer example_trends) = Inr example_result"
  by (simp add: trends_of_response_def query_results_def answer_def entryTypes_error_def
      example_trends_analysis)





text \<open>
  C10. In every result of \<open>get_health_trends\<close> no dataset occurs twice in
  \<open>trending_worse\<close>, none occurs twice in \<open>trending_better\<close>, and none occurs in both.
\<close>

theorem trending_lists_disjoint:
  assumes "trends_of_response resp = Inr res"
  shows "distinct (map trend_dataset (trending_worse res))
         \<and> distinct (map trend_dataset (trending_better res))
         \<and> trend_dataset ` set (trending_worse res)
             \<inter> trend_dataset ` set (trending_better res) = {}"
proof -
  from trends_of_response_Inr[OF assms] obtain rows where
    "analyze_trends rows = Inr res" by blast
  from analyze_trends_result(5)[OF this] show ?thesis
    by simp
qed

text \<open>The theorem at the example rows.\<close>

theorem trending_lists_witness:
  "trends_of_response (answer example_trends) = Inr example_result
   \<and> distinct (map trend_dataset (trending_worse example_result))
   \<and> distinct (map trend_dataset (trending_better example_result))
   \<and> trend_dataset ` set (trending_worse example_result)
       \<inter> trend_dataset ` set (trending_better example_result) = {}"
  using trending_lists_disjoint[OF example_trends_response] example_trends_response
  by simp

section \<open>Short histories\<close>

text \<open>
  With fewer than 4 rows there is no older row, \<open>older_avg\<close> is 0, and the loop body
  either raises on the division or appends nothing.
\<close>

lemma short_history_not_listed:
  assumes "length trends < 4" and "analyze_dataset ds trends = Inr v"
  shows "v = Not_listed"
proof (cases "length trends \<ge> 2")
  case False
  with assms(2) show ?thesis by (simp add: analyze_dataset_def)
next
  case True
  from assms(1) have b: "but_last3 trends = []"
    by (simp add: but_last3_def)
  from assms(1) True have m: "max 1 (length trends - 3) = 1"
    by simp
  from assms(2) True obtain recent where
    "sum_avg 0 (last3 trends) = Inr recent"
    and c: "classify ds (recent / of_nat (min 3 (length trends))) 0 = Inr v"
    by (auto simp: analyze_dataset_def averages_def b split: sum.splits)
  from c show ?thesis
    by (auto simp: classify_def make_entry_def split: if_splits)
qed

lemma add_row_lookup:
  "map_of (add_row k r g) k'
     = (if k' = k then Some ((case map_of g k of None \<Rightarrow> [] | Some rs \<Rightarrow> rs) @ [r])
        else map_of g k')"
  by (induction k r g rule: add_row.induct) auto

lemma group_rows_lookup:
  "map_of (group_rows rows g) k
     = (if k \<in> fst ` set g \<union> (\<lambda>r. get r ''dataset_name'') ` set rows
        then Some ((case map_of g k of None \<Rightarrow> [] | Some rs \<Rightarrow> rs)
                   @ filter (\<lambda>r. get r ''dataset_name'' = k) rows)
        else None)"
proof (induction rows arbitrary: g)
  case Nil
  show ?case
    by (auto simp: map_of_eq_None_iff split: option.splits)
next
  case (Cons r rows)
  show ?case
    by (auto simp: Cons.IH keys_add_row add_row_lookup map_of_eq_None_iff
        split: option.splits)
qed

lemma analyze_all_short:
  "analyze_all g worse better = Inr (worse', better') \<Longrightarrow>
   distinct (map fst g) \<Longrightarrow> (ds, trends) \<in> set g \<Longrightarrow> length trends < 4 \<Longrightarrow>
   ds \<notin> trend_dataset ` set worse \<Longrightarrow> ds \<notin> trend_dataset ` set better \<Longrightarrow>
   ds \<notin> trend_dataset ` set worse' \<and> ds \<notin> trend_dataset ` set better'"
proof (induction g worse better rule: analyze_all.induct)
  case (1 worse better)
  then show ?case by simp
next
  case (2 ds_name ts g worse better)
  from "2.prems"(2) have dg: "distinct (map fst g)" and nk: "ds_name \<notin> fst ` set g"
    by auto
  show ?case
  proof (cases "analyze_dataset ds_name ts")
    case (Inl e)
    with "2.prems" show ?thesis by simp
  next
    case (Inr v)
    show ?thesis
    proof (cases "(ds, trends) = (ds_name, ts)")
      case True
      with Inr "2.prems"(4) short_history_not_listed have v: "v = Not_listed"
        by auto
      with Inr "2.prems"(1) have a: "analyze_all g worse better = Inr (worse', better')"
        by simp
      from True nk have "ds \<notin> fst ` set g" by simp
      with analyze_all_subset[OF a] "2.prems"(5,6) show ?thesis
        by auto
    next
      case False
      with "2.prems"(3) have mem: "(ds, trends) \<in> set g" by auto
      then have "ds \<in> fst ` set g" by force
      with nk have ne: "ds \<noteq> ds_name" by auto
      show ?thesis
      proof (cases v)
        case (Listed_worse t)
        with Inr "2.prems"(1) have a: "analyze_all g (worse @ [t]) better = Inr (worse', better')"
          by simp
        have "trend_dataset t = ds_name"
          using Inr Listed_worse analyze_dataset_worse by simp
        with ne "2.prems"(5) have w: "ds \<notin> trend_dataset ` set (worse @ [t])" by auto
        from "2.IH"(1)[OF Inr Listed_worse a dg mem "2.prems"(4) w "2.prems"(6)]
        show ?thesis .
      next
        case (Listed_better t)
        with Inr "2.prems"(1) have a: "analyze_all g worse (better @ [t]) = Inr (worse', better')"
          by simp
        have "trend_dataset t = ds_name"
          using Inr Listed_better analyze_dataset_better by simp
        with ne "2.prems"(6) have b: "ds \<notin> trend_dataset ` set (better @ [t])" by auto
        from "2.IH"(2)[OF Inr Listed_better a dg mem "2.prems"(4) "2.prems"(5) b]
        show ?thesis .
      next
        case Not_listed
        with Inr "2.prems"(1) have a: "analyze_all g worse better = Inr (worse', better')"
          by simp
        from "2.IH"(3)[OF Inr Not_listed a dg mem "2.prems"(4) "2.prems"(5) "2.prems"(6)]
        show ?thesis .
      qed
    qed
  qed
qed

text \<open>
  What holds of datasets with a short history: whenever the analysis does return a
  result, a dataset with fewer than 4 rows is in neither list, and \<open>dataset_count\<close> is
  the number of distinct dataset names among the rows, so it counts that dataset too.
\<close>

lemma short_histories_left_out:
  assumes res: "trends_of_response resp = Inr res"
    and rows: "query_results resp = Value rows"
    and r: "r \<in> set rows"
    and short: "length (filter (\<lambda>x. get x ''dataset_name'' = get r ''dataset_name'') rows) < 4"
  shows "get r ''dataset_name'' \<notin> trend_dataset ` set (trending_worse res)"
    and "get r ''dataset_name'' \<notin> trend_dataset ` set (trending_better res)"
    and "dataset_count res = card ((\<lambda>x. get x ''dataset_name'') ` set rows)"
proof -
  let ?g = "group_rows rows []"
  let ?ds = "get r ''dataset_name''"
  from res rows have a: "analyze_trends rows = Inr res"
    by (auto simp: trends_of_response_def split: sum.splits)
  then obtain worse better where
    al: "analyze_all ?g [] [] = Inr (worse, better)"
    and rr: "res = \<lparr>raw_trends = rows, trending_worse = worse, trending_better = better,
                   dataset_count = length ?g\<rparr>"
    by (auto simp: analyze_trends_def Let_def split: sum.splits)
  have d: "distinct (map fst ?g)"
    by (rule distinct_group_rows) simp
  have "map_of ?g ?ds = Some (filter (\<lambda>x. get x ''dataset_name'' = ?ds) rows)"
    using r by (simp add: group_rows_lookup)
  then have mem: "(?ds, filter (\<lambda>x. get x ''dataset_name'' = ?ds) rows) \<in> set ?g"
    by (rule map_of_SomeD)
  from analyze_all_short[OF al d mem short]
  show "?ds \<notin> trend_dataset ` set (trending_worse res)"
    and "?ds \<notin> trend_dataset ` set (trending_better res)"
    by (simp_all add: rr)
  have "length ?g = card (fst ` set ?g)"
    using d distinct_card[of "map fst ?g"] by simp
  then show "dataset_count res = card ((\<lambda>x. get x ''dataset_name'') ` set rows)"
    by (simp add: rr keys_group_rows)
qed

end
